theory Spec2Isabelle
  imports Main "HOL-Library.Monad_Syntax"
begin

section \<open>The language constructs used by \<^verbatim>\<open>tailwind.config.ts\<close>\<close>

text \<open>
  The module is a single expression built from string literals, two \<^verbatim>\<open>const\<close>
  declarations, one object literal, \<^verbatim>\<open>Object.keys\<close>, \<^verbatim>\<open>Array.prototype.join\<close>,
  two template literals and two calls of \<^verbatim>\<open>new RegExp\<close>. Each of these is modelled
  below after ECMAScript; strings are lists of \<^typ>\<open>char\<close> (every character of the
  source file is ASCII).
\<close>

subsection \<open>Template literals\<close>

definition backslash :: char where
  "backslash = CHR 0x5C"

text \<open>
  The characters that start a proper escape sequence after a backslash
  (\<^verbatim>\<open>' " \ b f n r t v\<close>, a decimal digit, \<^verbatim>\<open>x\<close>, \<^verbatim>\<open>u\<close>) and the line
  terminators. Every other character \<open>d\<close> is a NonEscapeCharacter: the template value
  of backslash \<open>d\<close> is \<open>d\<close> itself.
\<close>

definition escape_characters :: "char list" where
  "escape_characters =
     [CHR 0x27, CHR 0x22, backslash, CHR 0x0A, CHR 0x0D] @ ''bfnrtv0123456789xu''"

text \<open>
  The template value (TV) of a run of template characters. \<open>None\<close> stands for a run
  this model does not interpret: a proper escape sequence, a line continuation, a
  backquote, or the opening \<^verbatim>\<open>${\<close> of a substitution.
\<close>

fun template_value :: "string \<Rightarrow> string option" where
  "template_value [] = Some []"
| "template_value (c # cs) =
     (if c = backslash then
        (case cs of
           [] \<Rightarrow> None
         | d # ds \<Rightarrow>
             if d \<in> set escape_characters then None
             else map_option ((#) d) (template_value ds))
      else if c = CHR 0x60 then None
      else if c = CHR ''$'' \<and> take 1 cs = ''{'' then None
      else map_option ((#) c) (template_value cs))"

datatype template_part = Chars string | Subst string

text \<open>
  A template literal: the template values of its character runs and the (string)
  values of its substitutions, concatenated in order.
\<close>

fun template_literal :: "template_part list \<Rightarrow> string option" where
  "template_literal [] = Some []"
| "template_literal (Chars raw # ps) =
     do { a \<leftarrow> template_value raw; b \<leftarrow> template_literal ps; Some (a @ b) }"
| "template_literal (Subst v # ps) =
     do { b \<leftarrow> template_literal ps; Some (v @ b) }"

subsection \<open>Object literals and \<^verbatim>\<open>Object.keys\<close>\<close>

text \<open>
  An ordinary object with string keys, as the list of its own properties in the order
  of their creation.
\<close>

type_synonym 'v object = "(string \<times> 'v) list"

text \<open>
  A property definition of an object literal (CreateDataProperty): a key the object
  has already keeps its place and takes the new value, a new key goes last.
\<close>

fun define_property :: "'v object \<Rightarrow> string \<times> 'v \<Rightarrow> 'v object" where
  "define_property [] (k, v) = [(k, v)]"
| "define_property ((k', v') # ps) (k, v) =
     (if k' = k then (k, v) # ps else (k', v') # define_property ps (k, v))"

definition object_literal :: "(string \<times> 'v) list \<Rightarrow> 'v object" where
  "object_literal props = foldl define_property [] props"

definition get_property :: "'v object \<Rightarrow> string \<Rightarrow> 'v option" where
  "get_property obj k = map_of obj k"

definition decimal_value :: "string \<Rightarrow> int" where
  "decimal_value ds = foldl (\<lambda>n c. 10 * n + (of_char c - 48)) 0 ds"

text \<open>
  An array index is a key that is the canonical decimal numeral of an integer below
  \<open>2\<^sup>3\<^sup>2 - 1\<close>.
\<close>

definition is_array_index :: "string \<Rightarrow> bool" where
  "is_array_index k =
     (case k of
        [] \<Rightarrow> False
      | c # cs \<Rightarrow>
          list_all (\<lambda>d. d \<in> set ''0123456789'') k \<and>
          (if c = CHR ''0'' then cs = [] else True) \<and>
          decimal_value k < 2 ^ 32 - 1)"

text \<open>
  \<^verbatim>\<open>Object.keys\<close> (OrdinaryOwnPropertyKeys, all properties here being enumerable):
  the array indices in ascending numeric order, then the other keys in the order of
  their creation.
\<close>

definition Object_keys :: "'v object \<Rightarrow> string list" where
  "Object_keys obj =
     (let ks = map fst obj
      in sort_key decimal_value (filter is_array_index ks) @
         filter (\<lambda>k. \<not> is_array_index k) ks)"

subsection \<open>\<^verbatim>\<open>Array.prototype.join\<close>\<close>

fun join :: "string \<Rightarrow> string list \<Rightarrow> string" where
  "join sep [] = []"
| "join sep [x] = x"
| "join sep (x # y # ys) = x @ sep @ join sep (y # ys)"

subsection \<open>Regular expressions\<close>

text \<open>
  The fragment of the pattern grammar the module needs: a Disjunction is a list of
  Alternatives separated by \<^verbatim>\<open>|\<close>, an Alternative is a list of Terms, and a Term is
  a pattern character, one of the assertions \<^verbatim>\<open>^\<close> and \<^verbatim>\<open>$\<close>, or a
  parenthesised Disjunction.
\<close>

datatype rx_term =
    PatternChar char
  | AssertStart
  | AssertEnd
  | Group "rx_term list list"

type_synonym alternative = "rx_term list"
type_synonym disjunction = "alternative list"

text \<open>
  The parser reads the pattern left to right. A frame holds the finished Alternatives
  of the Disjunction being read and the Terms of its current Alternative; the stack
  holds the frames of the enclosing groups. \<open>None\<close> is returned for a pattern that is
  a SyntaxError (an unbalanced parenthesis, a trailing backslash) and for a pattern
  outside the fragment (a quantifier, \<^verbatim>\<open>.\<close>, a character class, a brace, an escape
  other than an identity escape of a syntax character or of \<^verbatim>\<open>/\<close>).
\<close>

type_synonym frame = "disjunction \<times> alternative"

definition syntax_characters :: "char list" where
  "syntax_characters = backslash # ''^$.*+?()[]{}|''"

fun parse_pattern :: "string \<Rightarrow> frame \<Rightarrow> frame list \<Rightarrow> disjunction option" where
  "parse_pattern [] (alts, cur) stack =
     (case stack of [] \<Rightarrow> Some (alts @ [cur]) | _ # _ \<Rightarrow> None)"
| "parse_pattern (c # cs) (alts, cur) stack =
     (if c = CHR ''|'' then parse_pattern cs (alts @ [cur], []) stack
      else if c = CHR ''('' then parse_pattern cs ([], []) ((alts, cur) # stack)
      else if c = CHR '')'' then
        (case stack of
           [] \<Rightarrow> None
         | (alts', cur') # stack' \<Rightarrow>
             parse_pattern cs (alts', cur' @ [Group (alts @ [cur])]) stack')
      else if c = CHR ''^'' then parse_pattern cs (alts, cur @ [AssertStart]) stack
      else if c = CHR ''$'' then parse_pattern cs (alts, cur @ [AssertEnd]) stack
      else if c = backslash then
        (case cs of
           [] \<Rightarrow> None
         | d # ds \<Rightarrow>
             if d \<in> set syntax_characters \<or> d = CHR ''/''
             then parse_pattern ds (alts, cur @ [PatternChar d]) stack
             else None)
      else if c \<in> set syntax_characters then None
      else parse_pattern cs (alts, cur @ [PatternChar c]) stack)"

text \<open>
  The matcher, in the continuation-passing style of the language definition: \<open>s\<close> is
  the input, \<open>i\<close> the position reached and \<open>k\<close> the continuation that matches the rest
  of the pattern. No flag is set, so \<^verbatim>\<open>^\<close> holds at position 0 only and \<^verbatim>\<open>$\<close> at
  the end of the input only. The fragment has no backreference, so a group's capture
  is not recorded.
\<close>

fun m_term :: "string \<Rightarrow> rx_term \<Rightarrow> (nat \<Rightarrow> bool) \<Rightarrow> nat \<Rightarrow> bool"
and m_alt :: "string \<Rightarrow> alternative \<Rightarrow> (nat \<Rightarrow> bool) \<Rightarrow> nat \<Rightarrow> bool"
and m_disj :: "string \<Rightarrow> disjunction \<Rightarrow> (nat \<Rightarrow> bool) \<Rightarrow> nat \<Rightarrow> bool" where
  "m_term s (PatternChar c) k i = (i < length s \<and> s ! i = c \<and> k (Suc i))"
| "m_term s AssertStart k i = (i = 0 \<and> k i)"
| "m_term s AssertEnd k i = (i = length s \<and> k i)"
| "m_term s (Group d) k i = m_disj s d k i"
| "m_alt s [] k i = k i"
| "m_alt s (t # ts) k i = m_term s t (\<lambda>j. m_alt s ts k j) i"
| "m_disj s [] k i = False"
| "m_disj s (a # as) k i = (m_alt s a k i \<or> m_disj s as k i)"

record RegExp =
  OriginalSource :: string
  RegExpMatcher :: disjunction

text \<open>\<^verbatim>\<open>new RegExp(p)\<close>, without flags; \<open>None\<close> where the parser returns \<open>None\<close>.\<close>

definition new_RegExp :: "string \<Rightarrow> RegExp option" where
  "new_RegExp p =
     map_option (\<lambda>d. \<lparr>OriginalSource = p, RegExpMatcher = d\<rparr>) (parse_pattern p ([], []) [])"

text \<open>
  \<^verbatim>\<open>RegExp.prototype.test\<close> of a pattern without the global and sticky flags: the
  match is tried at every start position from 0 to the length of the input.
\<close>

definition RegExp_test :: "RegExp \<Rightarrow> string \<Rightarrow> bool" where
  "RegExp_test r s =
     list_ex (\<lambda>i. m_disj s (RegExpMatcher r) (\<lambda>_. True) i) [0 ..< Suc (length s)]"

section \<open>The module\<close>

subsection \<open>The shared constants and the color table\<close>

datatype ident = TAG_PURPLE | TAG_CYAN

text \<open>The two \<^verbatim>\<open>const\<close> declarations, as the environment of the module.\<close>

fun module_consts :: "ident \<Rightarrow> string" where
  "module_consts TAG_PURPLE = ''#7B61FF''"
| "module_consts TAG_CYAN = ''#0CAFC6''"

text \<open>
  A property value of the color table is written either as a string literal or as a
  reference to one of the two constants.
\<close>

datatype initializer = StringLiteral string | Identifier ident

fun evaluate :: "(ident \<Rightarrow> string) \<Rightarrow> initializer \<Rightarrow> string" where
  "evaluate env (StringLiteral s) = s"
| "evaluate env (Identifier x) = env x"

text \<open>The property definitions of \<^verbatim>\<open>extraColors\<close>, in the order they are written.\<close>

definition extraColors_literal :: "(string \<times> initializer) list" where
  "extraColors_literal =
     [(''Function'', StringLiteral ''#056CF0''),
      (''Variable'', StringLiteral ''#7E57C0''),
      (''Class'', StringLiteral ''#20B44B''),
      (''Enum'', StringLiteral ''#22ABB0''),
      (''Interface'', StringLiteral ''#D2A064''),
      (''TypeAlias'', StringLiteral ''#A4478C''),
      (''Namespace'', StringLiteral ''#D25646''),
      (''new'', Identifier TAG_PURPLE),
      (''abstract'', Identifier TAG_CYAN),
      (''deprecated'', StringLiteral ''#DC2626''),
      (''writeonly'', Identifier TAG_PURPLE),
      (''readonly'', Identifier TAG_PURPLE),
      (''protected'', Identifier TAG_PURPLE),
      (''private'', Identifier TAG_PURPLE),
      (''optional'', Identifier TAG_CYAN),
      (''permissions'', Identifier TAG_CYAN),
      (''other'', StringLiteral ''#57534E'')]"

definition extraColors :: "(ident \<Rightarrow> string) \<Rightarrow> string object" where
  "extraColors env =
     object_literal (map (\<lambda>(k, e). (k, evaluate env e)) extraColors_literal)"

text \<open>\<^verbatim>\<open>Object.keys(extraColors)\<close>, with the constants as the module declares them.\<close>

definition extraColors_keys :: "string list" where
  "extraColors_keys = Object_keys (extraColors module_consts)"

subsection \<open>The exported configuration\<close>

record safelist_entry =
  pattern :: RegExp

record theme_extension =
  colors :: "string object"

record theme_t =
  extend' :: theme_extension

record Config =
  content :: "string list"
  safelist :: "safelist_entry list"
  theme :: theme_t
  darkMode :: string

text \<open>The pattern strings of the two safelist entries, for a given color table.\<close>

definition text_pattern_source :: "string object \<Rightarrow> string option" where
  "text_pattern_source table =
     template_literal
       [Chars ''^text-('', Subst (join ''|'' (Object_keys table)), Chars '')$'']"

definition bg_pattern_source :: "string object \<Rightarrow> string option" where
  "bg_pattern_source table =
     template_literal
       [Chars ''^bg-('', Subst (join ''|'' (Object_keys table)),
        Chars ('')'' @ [backslash] @ ''/15$'')]"

text \<open>
  The default export as a function of the values of the two constants. The properties
  are evaluated in the order they are written; \<open>None\<close> is an evaluation that does not
  complete (\<^verbatim>\<open>new RegExp\<close> throws) or leaves the modelled fragment.
\<close>

definition config :: "(ident \<Rightarrow> string) \<Rightarrow> Config option" where
  "config env =
     do {
       text_src \<leftarrow> text_pattern_source (extraColors env);
       text_re \<leftarrow> new_RegExp text_src;
       bg_src \<leftarrow> bg_pattern_source (extraColors env);
       bg_re \<leftarrow> new_RegExp bg_src;
       Some \<lparr>content = [''./src/html/**/*.rs'', ''./src/html/templates/*.hbs''],
             safelist = [\<lparr>pattern = text_re\<rparr>, \<lparr>pattern = bg_re\<rparr>],
             theme = \<lparr>extend' = \<lparr>colors = extraColors env\<rparr>\<rparr>,
             darkMode = ''class''\<rparr>
     }"

definition default_export :: "Config option" where
  "default_export = config module_consts"

section \<open>Notions used in the statements\<close>

text \<open>
  A string is plain when none of its characters is a syntax character of the pattern
  grammar; the Alternative that matches a plain string literally is the list of its
  pattern characters.
\<close>

definition plain :: "string \<Rightarrow> bool" where
  "plain w = list_all (\<lambda>c. c \<notin> set syntax_characters) w"

abbreviation literal :: "string \<Rightarrow> alternative" where
  "literal w \<equiv> map PatternChar w"

text \<open>
  The constant a property value refers to, if it is written as a reference; the labels
  bound to a given constant and the labels bound to a string literal, in table order.
\<close>

fun shared_constant :: "initializer \<Rightarrow> ident option" where
  "shared_constant (StringLiteral s) = None"
| "shared_constant (Identifier x) = Some x"

definition aliased_labels :: "ident \<Rightarrow> string list" where
  "aliased_labels x = map fst (filter (\<lambda>(k, e). shared_constant e = Some x) extraColors_literal)"

definition literal_labels :: "string list" where
  "literal_labels = map fst (filter (\<lambda>(k, e). shared_constant e = None) extraColors_literal)"

text \<open>
  A color value of the form \<^verbatim>\<open>#\<close> followed by exactly six hexadecimal digits, and the
  wider form the specification admits (three or six hexadecimal digits, the leading
  \<^verbatim>\<open>#\<close> optional).
\<close>

definition is_hex_digit :: "char \<Rightarrow> bool" where
  "is_hex_digit c = (c \<in> set ''0123456789abcdefABCDEF'')"

definition hex_color6 :: "string \<Rightarrow> bool" where
  "hex_color6 v =
     (case v of [] \<Rightarrow> False
      | c # ds \<Rightarrow> c = CHR ''#'' \<and> length ds = 6 \<and> list_all is_hex_digit ds)"

definition valid_hex_color :: "string \<Rightarrow> bool" where
  "valid_hex_color v =
     (let ds = (if take 1 v = ''#'' then drop 1 v else v)
      in (length ds = 3 \<or> length ds = 6) \<and> list_all is_hex_digit ds)"

section \<open>Object literals with distinct keys\<close>

lemma define_property_fresh:
  "k \<notin> fst ` set obj \<Longrightarrow> define_property obj (k, v) = obj @ [(k, v)]"
  by (induction obj) auto

lemma foldl_define_property_distinct:
  "distinct (map fst (obj @ props)) \<Longrightarrow> foldl define_property obj props = obj @ props"
proof (induction props arbitrary: obj)
  case Nil
  then show ?case by simp
next
  case (Cons p props)
  obtain k v where p: "p = (k, v)" by (cases p)
  from Cons.prems p have fresh: "k \<notin> fst ` set obj" by auto
  from Cons.prems have "distinct (map fst ((obj @ [p]) @ props))" by simp
  then have "foldl define_property (obj @ [p]) props = (obj @ [p]) @ props"
    by (rule Cons.IH)
  with fresh p show ?case by (simp add: define_property_fresh)
qed

lemma object_literal_distinct:
  "distinct (map fst props) \<Longrightarrow> object_literal props = props"
  unfolding object_literal_def using foldl_define_property_distinct [of "[]" props] by simp

lemma Object_keys_no_index:
  "list_all (\<lambda>k. \<not> is_array_index k) (map fst obj) \<Longrightarrow> Object_keys obj = map fst obj"
  by (simp add: Object_keys_def Let_def list_all_iff filter_empty_conv filter_id_conv)

lemma letter_first_not_index:
  "c \<notin> set ''0123456789'' \<Longrightarrow> \<not> is_array_index (c # cs)"
  by (simp add: is_array_index_def)

lemma extraColors_literal_distinct: "distinct (map fst extraColors_literal)"
  by (simp add: extraColors_literal_def)

lemma extraColors_literal_no_index:
  "list_all (\<lambda>k. \<not> is_array_index k) (map fst extraColors_literal)"
  by (simp add: extraColors_literal_def letter_first_not_index)

lemma map_fst_evaluate:
  "map fst (map (\<lambda>(k, e). (k, evaluate env e)) props) = map fst props"
  by (induction props) auto

lemma extraColors_eq:
  "extraColors env = map (\<lambda>(k, e). (k, evaluate env e)) extraColors_literal"
  unfolding extraColors_def
  by (rule object_literal_distinct) (simp only: map_fst_evaluate extraColors_literal_distinct)

lemma Object_keys_extraColors:
  "Object_keys (extraColors env) = map fst extraColors_literal"
proof -
  have "map fst (extraColors env) = map fst extraColors_literal"
    by (simp only: extraColors_eq map_fst_evaluate)
  then show ?thesis
    using extraColors_literal_no_index by (simp add: Object_keys_no_index)
qed

section \<open>Parsing and matching an anchored alternation of literals\<close>

lemma parse_plain_char:
  "c \<notin> set syntax_characters \<Longrightarrow>
   parse_pattern (c # cs) (alts, cur) stack = parse_pattern cs (alts, cur @ [PatternChar c]) stack"
  by (simp add: syntax_characters_def)

lemma parse_plain:
  "plain w \<Longrightarrow>
   parse_pattern (w @ rest) (alts, cur) stack = parse_pattern rest (alts, cur @ literal w) stack"
proof (induction w arbitrary: cur)
  case Nil
  then show ?case by simp
next
  case (Cons c w)
  then have c: "c \<notin> set syntax_characters" and w: "plain w"
    by (simp_all add: plain_def)
  have "parse_pattern ((c # w) @ rest) (alts, cur) stack
        = parse_pattern (w @ rest) (alts, cur @ [PatternChar c]) stack"
    using parse_plain_char [OF c] by simp
  also have "\<dots> = parse_pattern rest (alts, (cur @ [PatternChar c]) @ literal w) stack"
    by (rule Cons.IH [OF w])
  finally show ?case by simp
qed

lemma parse_bar:
  "parse_pattern (CHR ''|'' # cs) (alts, cur) stack = parse_pattern cs (alts @ [cur], []) stack"
  by simp

lemma parse_join:
  "list_all plain (l # ls) \<Longrightarrow>
   parse_pattern (join ''|'' (l # ls) @ rest) (alts, cur) stack =
   parse_pattern rest
     (alts @ butlast ((cur @ literal l) # map literal ls),
      last ((cur @ literal l) # map literal ls)) stack"
proof (induction ls arbitrary: l alts cur)
  case Nil
  then show ?case by (simp add: parse_plain)
next
  case (Cons m ms)
  from Cons.prems have l: "plain l" and rest: "list_all plain (m # ms)" by simp_all
  have "parse_pattern (join ''|'' (l # m # ms) @ rest) (alts, cur) stack
        = parse_pattern (l @ (CHR ''|'' # join ''|'' (m # ms) @ rest)) (alts, cur) stack"
    by simp
  also have "\<dots> = parse_pattern (CHR ''|'' # join ''|'' (m # ms) @ rest) (alts, cur @ literal l) stack"
    by (rule parse_plain [OF l])
  also have "\<dots> = parse_pattern (join ''|'' (m # ms) @ rest) (alts @ [cur @ literal l], []) stack"
    by (rule parse_bar)
  also have "\<dots> = parse_pattern rest
      ((alts @ [cur @ literal l]) @ butlast (([] @ literal m) # map literal ms),
       last (([] @ literal m) # map literal ms)) stack"
    by (rule Cons.IH [OF rest])
  finally show ?case by simp
qed

lemma parse_anchored_alternation:
  assumes p: "plain p" and q: "plain q" and ls: "list_all plain (l # ls)"
  shows "parse_pattern (''^'' @ p @ ''('' @ join ''|'' (l # ls) @ '')'' @ q @ ''$'') ([], []) [] =
         Some [AssertStart # literal p @ [Group (map literal (l # ls))] @ literal q @ [AssertEnd]]"
proof -
  let ?alts = "map literal (l # ls)"
  have "parse_pattern (''^'' @ p @ ''('' @ join ''|'' (l # ls) @ '')'' @ q @ ''$'') ([], []) []
        = parse_pattern (p @ (''('' @ join ''|'' (l # ls) @ '')'' @ q @ ''$'')) ([], [AssertStart]) []"
    by simp
  also have "\<dots> = parse_pattern (''('' @ join ''|'' (l # ls) @ '')'' @ q @ ''$'')
                      ([], [AssertStart] @ literal p) []"
    by (rule parse_plain [OF p])
  also have "\<dots> = parse_pattern (join ''|'' (l # ls) @ ('')'' @ q @ ''$''))
                      ([], []) [([], [AssertStart] @ literal p)]"
    by simp
  also have "\<dots> = parse_pattern ('')'' @ q @ ''$'')
                      ([] @ butlast (([] @ literal l) # map literal ls),
                       last (([] @ literal l) # map literal ls))
                      [([], [AssertStart] @ literal p)]"
    by (rule parse_join [OF ls])
  also have "\<dots> = parse_pattern (q @ ''$'')
                      ([], ([AssertStart] @ literal p) @ [Group (butlast ?alts @ [last ?alts])]) []"
    by simp
  also have "\<dots> = parse_pattern ''$''
                      ([], (([AssertStart] @ literal p) @ [Group (butlast ?alts @ [last ?alts])]) @ literal q) []"
    by (rule parse_plain [OF q])
  also have "\<dots> = Some [(([AssertStart] @ literal p) @ [Group (butlast ?alts @ [last ?alts])]) @ literal q @ [AssertEnd]]"
    by simp
  also have "butlast ?alts @ [last ?alts] = ?alts"
    by (rule append_butlast_last_id) simp
  finally show ?thesis by simp
qed

lemma take_Suc_drop_eq_Cons:
  "take (Suc n) (drop i s) = c # w \<longleftrightarrow> i < length s \<and> s ! i = c \<and> take n (drop (Suc i) s) = w"
proof (cases "i < length s")
  case True
  then have "drop i s = s ! i # drop (Suc i) s" by (simp add: Cons_nth_drop_Suc)
  then show ?thesis using True by simp
next
  case False
  then show ?thesis by simp
qed

lemma m_alt_literal:
  "m_alt s (literal w @ ts) k i \<longleftrightarrow>
   take (length w) (drop i s) = w \<and> m_alt s ts k (i + length w)"
proof (induction w arbitrary: i)
  case Nil
  then show ?case by simp
next
  case (Cons c w)
  have "m_alt s (literal (c # w) @ ts) k i \<longleftrightarrow>
        i < length s \<and> s ! i = c \<and> m_alt s (literal w @ ts) k (Suc i)"
    by simp
  also have "\<dots> \<longleftrightarrow> i < length s \<and> s ! i = c \<and>
        take (length w) (drop (Suc i) s) = w \<and> m_alt s ts k (Suc i + length w)"
    by (simp only: Cons.IH)
  also have "\<dots> \<longleftrightarrow> take (length (c # w)) (drop i s) = c # w \<and> m_alt s ts k (i + length (c # w))"
    by (auto simp: take_Suc_drop_eq_Cons)
  finally show ?case .
qed

lemma m_disj_literals:
  "m_disj s (map literal ws) k i \<longleftrightarrow>
   (\<exists>w \<in> set ws. take (length w) (drop i s) = w \<and> k (i + length w))"
proof (induction ws)
  case Nil
  then show ?case by simp
next
  case (Cons w ws)
  have "m_alt s (literal w) k i \<longleftrightarrow> take (length w) (drop i s) = w \<and> k (i + length w)"
    using m_alt_literal [of s w "[]" k i] by simp
  with Cons.IH show ?case by auto
qed

lemma take_drop_decompose:
  "take (length p) s = p \<and> take (length w) (drop (length p) s) = w \<and>
   take (length q) (drop (length p + length w) s) = q \<and>
   length p + length w + length q = length s \<longleftrightarrow> s = p @ w @ q"
  (is "?L \<longleftrightarrow> ?R")
proof
  assume h: ?L
  then have tp: "take (length p) s = p"
    and tw: "take (length w) (drop (length p) s) = w"
    and tq: "take (length q) (drop (length p + length w) s) = q"
    and len: "length p + length w + length q = length s"
    by blast+
  from len have "length (drop (length p + length w) s) \<le> length q" by simp
  then have "take (length q) (drop (length p + length w) s) = drop (length p + length w) s"
    by (rule take_all)
  with tq have "drop (length w) (drop (length p) s) = q"
    by (simp add: add.commute)
  with tw have "drop (length p) s = w @ q"
    by (metis append_take_drop_id)
  with tp show ?R
    by (metis append_take_drop_id)
next
  assume ?R
  then show ?L by simp
qed

lemma m_anchored_alternation:
  "m_disj s [AssertStart # literal p @ [Group (map literal ws)] @ literal q @ [AssertEnd]] (\<lambda>_. True) i
   \<longleftrightarrow> i = 0 \<and> (\<exists>w \<in> set ws. s = p @ w @ q)"
proof -
  have "m_disj s [AssertStart # literal p @ [Group (map literal ws)] @ literal q @ [AssertEnd]] (\<lambda>_. True) i
        \<longleftrightarrow> i = 0 \<and> take (length p) s = p \<and>
            (\<exists>w \<in> set ws. take (length w) (drop (length p) s) = w \<and>
               take (length q) (drop (length p + length w) s) = q \<and>
               length p + length w + length q = length s)"
    by (cases "i = 0") (auto simp: m_alt_literal m_disj_literals)
  also have "\<dots> \<longleftrightarrow> i = 0 \<and> (\<exists>w \<in> set ws. s = p @ w @ q)"
    using take_drop_decompose [of p s _ q] by blast
  finally show ?thesis .
qed

lemma RegExp_test_anchored_alternation:
  assumes "RegExpMatcher r = [AssertStart # literal p @ [Group (map literal ws)] @ literal q @ [AssertEnd]]"
  shows "RegExp_test r s \<longleftrightarrow> (\<exists>w \<in> set ws. s = p @ w @ q)"
proof -
  have "RegExp_test r s \<longleftrightarrow> (\<exists>i \<in> set [0 ..< Suc (length s)]. i = 0 \<and> (\<exists>w \<in> set ws. s = p @ w @ q))"
    unfolding RegExp_test_def list_ex_iff assms m_anchored_alternation ..
  also have "\<dots> \<longleftrightarrow> (\<exists>w \<in> set ws. s = p @ w @ q)"
    by auto
  finally show ?thesis .
qed

section \<open>The patterns and the configuration of the module\<close>

lemma text_pattern_source_eq:
  "text_pattern_source table = Some (''^text-('' @ join ''|'' (Object_keys table) @ '')$'')"
  by (simp add: text_pattern_source_def backslash_def)

lemma bg_pattern_source_eq:
  "bg_pattern_source table = Some (''^bg-('' @ join ''|'' (Object_keys table) @ '')/15$'')"
  by (simp add: bg_pattern_source_def backslash_def escape_characters_def)

lemma labels_plain: "list_all plain (map fst extraColors_literal)"
  by (simp add: extraColors_literal_def plain_def syntax_characters_def backslash_def)

lemma labels_nonempty: "\<exists>l ls. map fst extraColors_literal = l # ls"
  by (simp add: extraColors_literal_def)

lemma new_RegExp_text:
  "new_RegExp (''^text-('' @ join ''|'' (map fst extraColors_literal) @ '')$'') =
   Some \<lparr>OriginalSource = ''^text-('' @ join ''|'' (map fst extraColors_literal) @ '')$'',
         RegExpMatcher = [AssertStart # literal ''text-'' @
                          [Group (map literal (map fst extraColors_literal))] @ literal [] @ [AssertEnd]]\<rparr>"
proof -
  obtain l ls where lab: "map fst extraColors_literal = l # ls"
    using labels_nonempty by (elim exE)
  have p: "plain ''text-''" and q: "plain []"
    by (simp_all add: plain_def syntax_characters_def backslash_def)
  have ls: "list_all plain (l # ls)"
    using labels_plain by (simp only: lab)
  show ?thesis
    unfolding new_RegExp_def lab
    using parse_anchored_alternation [OF p q ls] by simp
qed

lemma new_RegExp_bg:
  "new_RegExp (''^bg-('' @ join ''|'' (map fst extraColors_literal) @ '')/15$'') =
   Some \<lparr>OriginalSource = ''^bg-('' @ join ''|'' (map fst extraColors_literal) @ '')/15$'',
         RegExpMatcher = [AssertStart # literal ''bg-'' @
                          [Group (map literal (map fst extraColors_literal))] @ literal ''/15'' @ [AssertEnd]]\<rparr>"
proof -
  obtain l ls where lab: "map fst extraColors_literal = l # ls"
    using labels_nonempty by (elim exE)
  have p: "plain ''bg-''" and q: "plain ''/15''"
    by (simp_all add: plain_def syntax_characters_def backslash_def)
  have ls: "list_all plain (l # ls)"
    using labels_plain by (simp only: lab)
  show ?thesis
    unfolding new_RegExp_def lab
    using parse_anchored_alternation [OF p q ls] by simp
qed

lemma config_eq:
  "config env =
   Some \<lparr>content = [''./src/html/**/*.rs'', ''./src/html/templates/*.hbs''],
         safelist =
           [\<lparr>pattern =
               \<lparr>OriginalSource = ''^text-('' @ join ''|'' (map fst extraColors_literal) @ '')$'',
                RegExpMatcher = [AssertStart # literal ''text-'' @
                   [Group (map literal (map fst extraColors_literal))] @ literal [] @ [AssertEnd]]\<rparr>\<rparr>,
            \<lparr>pattern =
               \<lparr>OriginalSource = ''^bg-('' @ join ''|'' (map fst extraColors_literal) @ '')/15$'',
                RegExpMatcher = [AssertStart # literal ''bg-'' @
                   [Group (map literal (map fst extraColors_literal))] @ literal ''/15'' @ [AssertEnd]]\<rparr>\<rparr>],
         theme = \<lparr>extend' = \<lparr>colors = extraColors env\<rparr>\<rparr>,
         darkMode = ''class''\<rparr>"
  by (simp only: config_def text_pattern_source_eq bg_pattern_source_eq Object_keys_extraColors
      new_RegExp_text new_RegExp_bg bind.bind_lunit)

lemma extraColors_keys_eq: "extraColors_keys = map fst extraColors_literal"
  by (simp only: extraColors_keys_def Object_keys_extraColors)

lemma set_extraColors_keys:
  "set extraColors_keys =
   {''Function'', ''Variable'', ''Class'', ''Enum'', ''Interface'', ''TypeAlias'', ''Namespace'',
    ''new'', ''abstract'', ''deprecated'', ''writeonly'', ''readonly'', ''protected'', ''private'',
    ''optional'', ''permissions'', ''other''}"
  by (simp add: extraColors_keys_eq extraColors_literal_def)

lemma default_export_patterns:
  "\<exists>cfg e1 e2. default_export = Some cfg \<and> safelist cfg = [e1, e2] \<and>
     OriginalSource (pattern e1) = ''^text-('' @ join ''|'' extraColors_keys @ '')$'' \<and>
     OriginalSource (pattern e2) = ''^bg-('' @ join ''|'' extraColors_keys @ '')/15$'' \<and>
     RegExpMatcher (pattern e1) =
       [AssertStart # literal ''text-'' @ [Group (map literal extraColors_keys)] @ literal [] @ [AssertEnd]] \<and>
     RegExpMatcher (pattern e2) =
       [AssertStart # literal ''bg-'' @ [Group (map literal extraColors_keys)] @ literal ''/15'' @ [AssertEnd]]"
  unfolding default_export_def extraColors_keys_eq
  by (simp add: config_eq)


section \<open>The safelist patterns\<close>

lemma RegExp_test_text:
  assumes "RegExpMatcher r =
    [AssertStart # literal ''text-'' @ [Group (map literal ws)] @ literal [] @ [AssertEnd]]"
  shows "RegExp_test r s \<longleftrightarrow> (\<exists>L \<in> set ws. s = ''text-'' @ L)"
  using RegExp_test_anchored_alternation [OF assms, of s] by simp

lemma RegExp_test_bg:
  assumes "RegExpMatcher r =
    [AssertStart # literal ''bg-'' @ [Group (map literal ws)] @ literal ''/15'' @ [AssertEnd]]"
  shows "RegExp_test r s \<longleftrightarrow> (\<exists>L \<in> set ws. s = ''bg-'' @ L @ ''/15'')"
  using RegExp_test_anchored_alternation [OF assms, of s] by simp

text \<open>
  C1. For every label \<open>L\<close> that is a key of the color table, evaluating the module yields
  a configuration whose safelist has two entries, the pattern of the first matching
  \<open>text-L\<close> and the pattern of the second matching \<open>bg-L/15\<close>.
\<close>

theorem safelist_covers_every_label:
  "L \<in> set extraColors_keys \<Longrightarrow>
   \<exists>cfg e1 e2. default_export = Some cfg \<and> safelist cfg = [e1, e2] \<and>
     RegExp_test (pattern e1) (''text-'' @ L) \<and>
     RegExp_test (pattern e2) (''bg-'' @ L @ ''/15'')"
proof -
  assume L: "L \<in> set extraColors_keys"
  obtain cfg e1 e2 where cfg: "default_export = Some cfg" "safelist cfg = [e1, e2]"
    and m1: "RegExpMatcher (pattern e1) =
       [AssertStart # literal ''text-'' @ [Group (map literal extraColors_keys)] @ literal [] @ [AssertEnd]]"
    and m2: "RegExpMatcher (pattern e2) =
       [AssertStart # literal ''bg-'' @ [Group (map literal extraColors_keys)] @ literal ''/15'' @ [AssertEnd]]"
    using default_export_patterns by blast
  from L have "RegExp_test (pattern e1) (''text-'' @ L)"
    unfolding RegExp_test_text [OF m1] by blast
  moreover from L have "RegExp_test (pattern e2) (''bg-'' @ L @ ''/15'')"
    unfolding RegExp_test_bg [OF m2] by blast
  ultimately show ?thesis using cfg by blast
qed

theorem safelist_covers_every_label_witness:
  "''Function'' \<in> set extraColors_keys \<and>
   (\<exists>cfg e1 e2. default_export = Some cfg \<and> safelist cfg = [e1, e2] \<and>
     RegExp_test (pattern e1) ''text-Function'' \<and>
     RegExp_test (pattern e2) ''bg-Function/15'')"
proof -
  have k: "''Function'' \<in> set extraColors_keys"
    by (simp add: set_extraColors_keys)
  show ?thesis
    using k safelist_covers_every_label [OF k] by simp
qed

text \<open>
  C2. Both safelist patterns are the interpolation of the keys of the color table into
  their template: the source strings are the templates around the keys joined by
  \<^verbatim>\<open>|\<close>, the alternatives of the group of each parsed pattern are the keys, in order,
  and a label is covered by a pattern exactly when it is a key of the color table.
\<close>

theorem safelist_alternation_is_key_set:
  "\<exists>cfg e1 e2. default_export = Some cfg \<and> safelist cfg = [e1, e2] \<and>
     OriginalSource (pattern e1) = ''^text-('' @ join ''|'' extraColors_keys @ '')$'' \<and>
     OriginalSource (pattern e2) = ''^bg-('' @ join ''|'' extraColors_keys @ '')/15$'' \<and>
     RegExpMatcher (pattern e1) =
       [[AssertStart] @ literal ''text-'' @ [Group (map literal extraColors_keys), AssertEnd]] \<and>
     RegExpMatcher (pattern e2) =
       [[AssertStart] @ literal ''bg-'' @ [Group (map literal extraColors_keys)] @
        literal ''/15'' @ [AssertEnd]] \<and>
     (\<forall>L. RegExp_test (pattern e1) (''text-'' @ L) \<longleftrightarrow> L \<in> set extraColors_keys) \<and>
     (\<forall>L. RegExp_test (pattern e2) (''bg-'' @ L @ ''/15'') \<longleftrightarrow> L \<in> set extraColors_keys)"
proof -
  obtain cfg e1 e2 where cfg: "default_export = Some cfg" "safelist cfg = [e1, e2]"
    and s1: "OriginalSource (pattern e1) = ''^text-('' @ join ''|'' extraColors_keys @ '')$''"
    and s2: "OriginalSource (pattern e2) = ''^bg-('' @ join ''|'' extraColors_keys @ '')/15$''"
    and m1: "RegExpMatcher (pattern e1) =
       [AssertStart # literal ''text-'' @ [Group (map literal extraColors_keys)] @ literal [] @ [AssertEnd]]"
    and m2: "RegExpMatcher (pattern e2) =
       [AssertStart # literal ''bg-'' @ [Group (map literal extraColors_keys)] @ literal ''/15'' @ [AssertEnd]]"
    using default_export_patterns by blast
  have t1: "\<forall>L. RegExp_test (pattern e1) (''text-'' @ L) \<longleftrightarrow> L \<in> set extraColors_keys"
    unfolding RegExp_test_text [OF m1] by auto
  have t2: "\<forall>L. RegExp_test (pattern e2) (''bg-'' @ L @ ''/15'') \<longleftrightarrow> L \<in> set extraColors_keys"
    unfolding RegExp_test_bg [OF m2] by auto
  from m1 have m1': "RegExpMatcher (pattern e1) =
       [[AssertStart] @ literal ''text-'' @ [Group (map literal extraColors_keys), AssertEnd]]"
    by simp
  from m2 have m2': "RegExpMatcher (pattern e2) =
       [[AssertStart] @ literal ''bg-'' @ [Group (map literal extraColors_keys)] @
        literal ''/15'' @ [AssertEnd]]"
    by simp
  from cfg s1 s2 m1' m2' t1 t2 show ?thesis by blast
qed

text \<open>
  C5. The first safelist pattern matches a string exactly when the string is
  \<open>text-L\<close> for a key \<open>L\<close> of the color table; it matches \<open>text-Function\<close> and does not
  match \<open>text-Function2\<close>.
\<close>

theorem text_pattern_matches_exactly:
  "\<exists>cfg e1 e2. default_export = Some cfg \<and> safelist cfg = [e1, e2] \<and>
     (\<forall>s. RegExp_test (pattern e1) s \<longleftrightarrow> (\<exists>L \<in> set extraColors_keys. s = ''text-'' @ L)) \<and>
     RegExp_test (pattern e1) ''text-Function'' \<and>
     \<not> RegExp_test (pattern e1) ''text-Function2''"
proof -
  obtain cfg e1 e2 where cfg: "default_export = Some cfg" "safelist cfg = [e1, e2]"
    and m1: "RegExpMatcher (pattern e1) =
       [AssertStart # literal ''text-'' @ [Group (map literal extraColors_keys)] @ literal [] @ [AssertEnd]]"
    using default_export_patterns by blast
  have all: "\<forall>s. RegExp_test (pattern e1) s \<longleftrightarrow> (\<exists>L \<in> set extraColors_keys. s = ''text-'' @ L)"
    using RegExp_test_text [OF m1] by blast
  have yes: "RegExp_test (pattern e1) ''text-Function''"
    unfolding RegExp_test_text [OF m1] by (simp add: set_extraColors_keys)
  have no: "\<not> RegExp_test (pattern e1) ''text-Function2''"
    unfolding RegExp_test_text [OF m1] by (simp add: set_extraColors_keys)
  from cfg all yes no show ?thesis by blast
qed

text \<open>
  C10. The second safelist pattern matches a string exactly when the string is
  \<open>bg-L/15\<close> for a key \<open>L\<close> of the color table: the suffix \<open>/15\<close> is required and
  nothing may follow it, so \<open>bg-Function\<close>, \<open>bg-Function/25\<close> and \<open>bg-Function/150\<close> are
  not matched, while \<open>bg-Function/15\<close> is. The backslash before \<open>/\<close> in the template
  yields the character \<open>/\<close>, and no key has a syntax character of the pattern grammar.
\<close>

theorem bg_pattern_matches_exactly:
  "\<exists>cfg e1 e2. default_export = Some cfg \<and> safelist cfg = [e1, e2] \<and>
     (\<forall>s. RegExp_test (pattern e2) s \<longleftrightarrow> (\<exists>L \<in> set extraColors_keys. s = ''bg-'' @ L @ ''/15'')) \<and>
     RegExp_test (pattern e2) ''bg-Function/15'' \<and>
     \<not> RegExp_test (pattern e2) ''bg-Function'' \<and>
     \<not> RegExp_test (pattern e2) ''bg-Function/25'' \<and>
     \<not> RegExp_test (pattern e2) ''bg-Function/150'' \<and>
     template_value ([backslash] @ ''/15$'') = Some ''/15$'' \<and>
     list_all plain extraColors_keys"
proof -
  obtain cfg e1 e2 where cfg: "default_export = Some cfg" "safelist cfg = [e1, e2]"
    and m2: "RegExpMatcher (pattern e2) =
       [AssertStart # literal ''bg-'' @ [Group (map literal extraColors_keys)] @ literal ''/15'' @ [AssertEnd]]"
    using default_export_patterns by blast
  have all: "\<forall>s. RegExp_test (pattern e2) s \<longleftrightarrow> (\<exists>L \<in> set extraColors_keys. s = ''bg-'' @ L @ ''/15'')"
    using RegExp_test_bg [OF m2] by blast
  have yes: "RegExp_test (pattern e2) ''bg-Function/15''"
    unfolding RegExp_test_bg [OF m2] by (simp add: set_extraColors_keys)
  have no1: "\<not> RegExp_test (pattern e2) ''bg-Function''"
    unfolding RegExp_test_bg [OF m2] by (simp add: set_extraColors_keys)
  have no2: "\<not> RegExp_test (pattern e2) ''bg-Function/25''"
    unfolding RegExp_test_bg [OF m2] by (simp add: set_extraColors_keys)
  have no3: "\<not> RegExp_test (pattern e2) ''bg-Function/150''"
    unfolding RegExp_test_bg [OF m2] by (simp add: set_extraColors_keys)
  have tv: "template_value ([backslash] @ ''/15$'') = Some ''/15$''"
    by (simp add: backslash_def escape_characters_def)
  have pl: "list_all plain extraColors_keys"
    using labels_plain by (simp only: extraColors_keys_eq)
  from cfg all yes no1 no2 no3 tv pl show ?thesis by blast
qed

section \<open>The color table and the shape of the configuration\<close>

lemma get_property_extraColors:
  assumes "(k, e) \<in> set extraColors_literal"
  shows "get_property (extraColors env) k = Some (evaluate env e)"
proof -
  have "map_of extraColors_literal k = Some e"
    using extraColors_literal_distinct assms by (rule map_of_is_SomeI)
  then show ?thesis
    by (simp add: get_property_def extraColors_eq map_of_map)
qed

lemma evaluate_update:
  "evaluate (env(c := v)) e = (if shared_constant e = Some c then v else evaluate env e)"
  by (cases e) simp_all

text \<open>
  C3 (as stated). Exactly the labels \<open>new\<close> and \<open>abstract\<close> are bound to a shared constant.
  The table binds \<open>writeonly\<close> to \<open>TAG_PURPLE\<close> as well.
\<close>

theorem aliased_labels_counterexample:
  "''writeonly'' \<in> set (aliased_labels TAG_PURPLE) \<and> ''writeonly'' \<notin> {''new'', ''abstract''}"
  by (simp add: aliased_labels_def extraColors_literal_def)

text \<open>
  C3 (amended). Exactly eight labels are bound to a shared constant: \<open>new\<close>, \<open>writeonly\<close>,
  \<open>readonly\<close>, \<open>protected\<close> and \<open>private\<close> to \<open>TAG_PURPLE\<close>; \<open>abstract\<close>, \<open>optional\<close> and
  \<open>permissions\<close> to \<open>TAG_CYAN\<close>. The other nine labels are bound to a string literal each.
\<close>

theorem aliased_labels_exactly:
  "aliased_labels TAG_PURPLE = [''new'', ''writeonly'', ''readonly'', ''protected'', ''private''] \<and>
   aliased_labels TAG_CYAN = [''abstract'', ''optional'', ''permissions''] \<and>
   literal_labels = [''Function'', ''Variable'', ''Class'', ''Enum'', ''Interface'', ''TypeAlias'',
                     ''Namespace'', ''deprecated'', ''other'']"
  by (simp add: aliased_labels_def literal_labels_def extraColors_literal_def)

text \<open>
  C4. Every entry of the color table resolves to the value of its initializer, so an
  entry bound to a constant \<open>c\<close> equals the value of \<open>c\<close>. Replacing the value of \<open>c\<close> by
  \<open>v\<close> makes every label bound to \<open>c\<close> resolve to \<open>v\<close> and leaves every other entry as it
  was; the module still evaluates, and the content globs, the safelist and the dark
  mode of the configuration are the same, the theme colors being the new table.
\<close>

theorem shared_constant_replacement:
  "(k, e) \<in> set extraColors_literal \<Longrightarrow>
     get_property (extraColors env) k = Some (evaluate env e) \<and>
     get_property (extraColors (env(c := v))) k =
       (if shared_constant e = Some c then Some v else get_property (extraColors env) k) \<and>
     (\<exists>cfg cfg'. config env = Some cfg \<and> config (env(c := v)) = Some cfg' \<and>
        content cfg' = content cfg \<and> safelist cfg' = safelist cfg \<and>
        darkMode cfg' = darkMode cfg \<and>
        colors (extend' (theme cfg')) = extraColors (env(c := v)))"
proof -
  assume ke: "(k, e) \<in> set extraColors_literal"
  have a: "get_property (extraColors env) k = Some (evaluate env e)"
    using ke by (rule get_property_extraColors)
  have "get_property (extraColors (env(c := v))) k = Some (evaluate (env(c := v)) e)"
    using ke by (rule get_property_extraColors)
  then have b: "get_property (extraColors (env(c := v))) k =
       (if shared_constant e = Some c then Some v else get_property (extraColors env) k)"
    by (simp add: evaluate_update a)
  have c: "\<exists>cfg cfg'. config env = Some cfg \<and> config (env(c := v)) = Some cfg' \<and>
        content cfg' = content cfg \<and> safelist cfg' = safelist cfg \<and>
        darkMode cfg' = darkMode cfg \<and>
        colors (extend' (theme cfg')) = extraColors (env(c := v))"
    by (simp add: config_eq)
  from a b c show ?thesis by blast
qed

theorem shared_constant_replacement_witness:
  "(''new'', Identifier TAG_PURPLE) \<in> set extraColors_literal \<and>
   get_property (extraColors module_consts) ''new'' = Some ''#7B61FF'' \<and>
   get_property (extraColors (module_consts(TAG_PURPLE := ''#000000''))) ''new'' = Some ''#000000''"
proof -
  have ke: "(''new'', Identifier TAG_PURPLE) \<in> set extraColors_literal"
    by (simp add: extraColors_literal_def)
  show ?thesis
    using ke shared_constant_replacement [OF ke, of module_consts TAG_PURPLE "''#000000''"]
    by simp
qed

text \<open>
  C6. Every value of the color table, the two constants resolved, is \<^verbatim>\<open>#\<close> followed by
  exactly six hexadecimal digits, which is one of the forms the specification admits.
\<close>

theorem extraColors_values_hex:
  "list_all (\<lambda>(k, v). hex_color6 v \<and> valid_hex_color v) (extraColors module_consts)"
  by (simp add: extraColors_eq extraColors_literal_def hex_color6_def valid_hex_color_def
      is_hex_digit_def)

text \<open>
  C7. The seventeen labels written in the color table are pairwise distinct, so the
  object has one property for each of them, in the order written, and its keys are
  these seventeen labels.
\<close>

theorem extraColors_labels_distinct:
  "distinct (map fst extraColors_literal) \<and> length extraColors_literal = 17 \<and>
   extraColors env = map (\<lambda>(k, e). (k, evaluate env e)) extraColors_literal \<and>
   Object_keys (extraColors env) = map fst extraColors_literal \<and>
   distinct (Object_keys (extraColors env)) \<and> length (Object_keys (extraColors env)) = 17"
proof -
  have d: "distinct (map fst extraColors_literal)"
    by (simp add: extraColors_literal_def)
  have n: "length extraColors_literal = 17"
    by (simp add: extraColors_literal_def)
  have e: "extraColors env = map (\<lambda>(k, e). (k, evaluate env e)) extraColors_literal"
    by (rule extraColors_eq)
  have k: "Object_keys (extraColors env) = map fst extraColors_literal"
    by (rule Object_keys_extraColors)
  from d n e k show ?thesis by simp
qed

text \<open>
  C8. Evaluating the module yields a configuration with the four fields \<open>content\<close>,
  \<open>safelist\<close>, \<open>theme\<close> and \<open>darkMode\<close> and no other: \<open>content\<close> is a list of exactly two
  globs, \<open>safelist\<close> a list of exactly two pattern entries, \<open>theme\<close> extends the colors
  by the color table, and \<open>darkMode\<close> is the string \<open>class\<close>.
\<close>

theorem default_export_shape:
  "\<exists>text_re bg_re.
     default_export =
       Some \<lparr>content = [''./src/html/**/*.rs'', ''./src/html/templates/*.hbs''],
             safelist = [\<lparr>pattern = text_re\<rparr>, \<lparr>pattern = bg_re\<rparr>],
             theme = \<lparr>extend' = \<lparr>colors = extraColors module_consts\<rparr>\<rparr>,
             darkMode = ''class''\<rparr>"
  by (simp add: default_export_def config_eq)

end
